theory Spec2Isabelle
  imports Main
begin

section \<open>Python values seen by the hint getters\<close>

text \<open>
  The getters of \<^verbatim>\<open>beartype._util.hint.pep.utilhintpepget\<close> and the reducers of
  \<^verbatim>\<open>beartype._util.hint.pep.proposal.pep484.utilpep484\<close> inspect arbitrary Python
  objects: they compare with \<^verbatim>\<open>None\<close>, test \<^verbatim>\<open>isinstance(hint, type)\<close>, read
  dunder attributes with \<^verbatim>\<open>getattr\<close>, and parse \<^verbatim>\<open>repr(hint)\<close>. An object is
  therefore one of:
  \<^item> the \<^verbatim>\<open>None\<close> singleton;
  \<^item> a \<^verbatim>\<open>str\<close>;
  \<^item> a \<^verbatim>\<open>tuple\<close> of objects;
  \<^item> an instance of the Python 3.6 class \<^verbatim>\<open>typing._TypeAlias\<close>, whose slots
    \<^verbatim>\<open>name\<close>, \<^verbatim>\<open>type_var\<close> and \<^verbatim>\<open>impl_type\<close> are always set by its constructor
    (kept here with the text its \<^verbatim>\<open>__repr__\<close> returns);
  \<^item> any other object: whether it is a class (an instance of \<^verbatim>\<open>type\<close>), the text
    its \<^verbatim>\<open>__repr__\<close> returns, and the attributes \<^verbatim>\<open>getattr\<close> finds on it.
\<close>

datatype pyobj =
    PyNone
  | PyStr string
  | PyTuple "pyobj list"
  | PyTypeAlias string string pyobj pyobj
  | PyObject bool string "(string \<times> pyobj) list"

text \<open>Exceptions are values; each carries its message.\<close>

datatype pyerror =
    BeartypeDecorHintPepException string
  | BeartypeDecorHintPepSignException string
  | AttributeError string
  | AssertionError string

text \<open>The warning category of \<^verbatim>\<open>beartype.roar\<close> emitted by the deprecation reducer.\<close>

datatype pywarning =
    BeartypeDecorHintPep585DeprecationWarning string

text \<open>A module, as far as \<^verbatim>\<open>getattr(module, name)\<close> can tell.\<close>

type_synonym pymodule = "string \<rightharpoonup> pyobj"

text \<open>\<^verbatim>\<open>isinstance(obj, type)\<close> and \<^verbatim>\<open>isinstance(obj, typing._TypeAlias)\<close>.\<close>

fun isinstance_type :: "pyobj \<Rightarrow> bool" where
  "isinstance_type (PyObject is_class r attrs) = is_class"
| "isinstance_type _ = False"

fun isinstance_TypeAlias :: "pyobj \<Rightarrow> bool" where
  "isinstance_TypeAlias (PyTypeAlias r n tv it) = True"
| "isinstance_TypeAlias _ = False"

text \<open>
  Attribute lookup. \<^verbatim>\<open>None\<close>, strings and tuples define none of the attributes read
  by the getters (\<^verbatim>\<open>__args__\<close>, \<^verbatim>\<open>__parameters__\<close>, \<^verbatim>\<open>__origin__\<close>,
  \<^verbatim>\<open>__extra__\<close>).
\<close>

fun py_lookup :: "pyobj \<Rightarrow> string \<Rightarrow> pyobj option" where
  "py_lookup (PyObject is_class r attrs) name = map_of attrs name"
| "py_lookup (PyTypeAlias r n tv it) name =
     (if name = ''name'' then Some (PyStr n)
      else if name = ''type_var'' then Some tv
      else if name = ''impl_type'' then Some it
      else None)"
| "py_lookup _ name = None"

text \<open>\<^verbatim>\<open>getattr(obj, name, default)\<close>.\<close>

definition py_getattr :: "pyobj \<Rightarrow> string \<Rightarrow> pyobj \<Rightarrow> pyobj" where
  "py_getattr obj name dflt =
     (case py_lookup obj name of None \<Rightarrow> dflt | Some v \<Rightarrow> v)"

text \<open>\<^verbatim>\<open>obj.name\<close>: raises \<^verbatim>\<open>AttributeError\<close> when the attribute is missing.\<close>

definition py_attr :: "pyobj \<Rightarrow> string \<Rightarrow> pyerror + pyobj" where
  "py_attr obj name =
     (case py_lookup obj name of None \<Rightarrow> Inl (AttributeError name) | Some v \<Rightarrow> Inr v)"

text \<open>\<^verbatim>\<open>getattr(module, name)\<close> and \<^verbatim>\<open>getattr(module, name, None)\<close>.\<close>

definition module_attr :: "pymodule \<Rightarrow> string \<Rightarrow> pyerror + pyobj" where
  "module_attr m name =
     (case m name of None \<Rightarrow> Inl (AttributeError name) | Some v \<Rightarrow> Inr v)"

definition module_getattr_or_none :: "pymodule \<Rightarrow> string \<Rightarrow> pyobj" where
  "module_getattr_or_none m name = (case m name of None \<Rightarrow> PyNone | Some v \<Rightarrow> v)"

text \<open>
  Truth value testing: \<^verbatim>\<open>None\<close>, the empty string and the empty tuple are false;
  instances and classes are true (the default of \<^verbatim>\<open>object\<close>).
\<close>

fun py_truthy :: "pyobj \<Rightarrow> bool" where
  "py_truthy PyNone = False"
| "py_truthy (PyStr s) = (s \<noteq> [])"
| "py_truthy (PyTuple xs) = (xs \<noteq> [])"
| "py_truthy _ = True"

text \<open>\<^verbatim>\<open>a or b\<close> on already evaluated operands.\<close>

definition py_or :: "pyobj \<Rightarrow> pyobj \<Rightarrow> pyobj" where
  "py_or a b = (if py_truthy a then a else b)"

subsection \<open>Strings\<close>

text \<open>\<^verbatim>\<open>s.partition(sep)\<close> for a one-character separator.\<close>

definition str_partition :: "string \<Rightarrow> char \<Rightarrow> string \<times> string \<times> string" where
  "str_partition s sep =
     (if sep \<in> set s
      then (takeWhile (\<lambda>c. c \<noteq> sep) s, [sep], tl (dropWhile (\<lambda>c. c \<noteq> sep) s))
      else (s, [], []))"

text \<open>\<^verbatim>\<open>sep.join(parts)\<close>.\<close>

fun str_join :: "string \<Rightarrow> string list \<Rightarrow> string" where
  "str_join sep [] = []"
| "str_join sep [x] = x"
| "str_join sep (x # y # ys) = x @ sep @ str_join sep (y # ys)"

text \<open>
  \<^verbatim>\<open>repr(obj)\<close>. Escape sequences inside the representation of a string are not
  modelled; a class or instance answers with the text it carries.
\<close>

fun py_repr :: "pyobj \<Rightarrow> string" where
  "py_repr PyNone = ''None''"
| "py_repr (PyStr s) = [CHR 0x27] @ s @ [CHR 0x27]"
| "py_repr (PyTuple xs) =
     (case xs of
        [] \<Rightarrow> ''()''
      | [x] \<Rightarrow> ''('' @ py_repr x @ '',)''
      | _ \<Rightarrow> ''('' @ str_join '', '' (map py_repr xs) @ '')'')"
| "py_repr (PyTypeAlias r n tv it) = r"
| "py_repr (PyObject is_class r attrs) = r"

text \<open>\<^verbatim>\<open>str(obj)\<close>, as an f-string field without conversion formats it.\<close>

fun py_str :: "pyobj \<Rightarrow> string" where
  "py_str (PyStr s) = s"
| "py_str obj = py_repr obj"

text \<open>\<^verbatim>\<open>repr\<close> of a frozenset, given its elements in iteration order.\<close>

definition repr_frozenset :: "pyobj list \<Rightarrow> string" where
  "repr_frozenset xs =
     (if xs = [] then ''frozenset()''
      else ''frozenset({'' @ str_join '', '' (map py_repr xs) @ ''})'')"

section \<open>Objects the getters return as signs or use as placeholders\<close>

text \<open>
  The class of \<^verbatim>\<open>None\<close>, the \<^verbatim>\<open>typing\<close> attributes \<^verbatim>\<open>Generic\<close>, \<^verbatim>\<open>TypeVar\<close>
  and \<^verbatim>\<open>NewType\<close>, and the placeholder \<^verbatim>\<open>SENTINEL\<close> of
  \<^verbatim>\<open>beartype._util.utilobject\<close>. Each is one fixed object; the getters only hand
  them out or compare with them, so their attributes are left out, as is the address in
  the representation of a function or of a plain object.
\<close>

definition NoneType :: pyobj where
  "NoneType = PyObject True ''<class 'NoneType'>'' []"

definition Generic :: pyobj where
  "Generic = PyObject True ''<class 'typing.Generic'>'' []"

definition TypeVar :: pyobj where
  "TypeVar = PyObject True ''<class 'typing.TypeVar'>'' []"

definition NewType :: pyobj where
  "NewType = PyObject False ''<function NewType>'' []"

definition SENTINEL :: pyobj where
  "SENTINEL = PyObject False ''<object object>'' []"

section \<open>The host: interpreter version, data tables and collaborators\<close>

text \<open>
  Everything the two modules import from the rest of the package is a parameter:
  the version flags of \<^verbatim>\<open>beartype._util.py.utilpyversion\<close>, the tables of
  \<^verbatim>\<open>beartype._util.hint.data\<close> and \<^verbatim>\<open>beartype._data\<close>, the testers and getters
  of sibling modules, the module importer, and the \<^verbatim>\<open>typing\<close> module itself.
  \<^item> \<open>HINT_PEP_SIGNS_TYPE\<close> lists the elements of that frozenset in iteration order
    (its \<^verbatim>\<open>repr\<close> appears in a message).
  \<^item> \<open>die_unless_hint_pep\<close> answers \<open>Some e\<close> when it raises \<open>e\<close>.
  \<^item> The testers \<open>is_hint_...\<close> answer a truth value and do not raise; the getters
    of sibling modules may raise, and answer \<open>Inl e\<close> when they do.
  \<^item> \<open>get_hint_repr\<close> is the memoized \<^verbatim>\<open>repr\<close> of \<^verbatim>\<open>beartype._util.hint.utilhintget\<close>.
  \<^item> \<open>import_module\<close> answers \<open>Inl msg\<close> when the module is unimportable: it then
    raises the exception class it was passed, with message \<open>msg\<close>.
\<close>

record host =
  IS_PYTHON_3_6 :: bool
  IS_PYTHON_AT_LEAST_3_7 :: bool
  IS_PYTHON_AT_LEAST_3_9 :: bool
  HINT_PEP_MODULE_NAMES :: "string set"
  HINT_PEP_SIGNS_TYPE :: "pyobj list"
  HINT_PEP_SIGNS_TYPE_ORIGIN_STDLIB :: "pyobj set"
  HINT_PEP484_TYPE_FORWARDREF :: pyobj
  HINTS_PEP484_REPR_PREFIX_DEPRECATED :: "string set"
  URL_PEP585_DEPRECATIONS :: string
  typing :: pymodule
  import_module :: "string \<Rightarrow> string + pymodule"
  die_unless_hint_pep :: "pyobj \<Rightarrow> pyerror option"
  is_hint_pep_generic :: "pyobj \<Rightarrow> bool"
  is_hint_pep_typevar :: "pyobj \<Rightarrow> bool"
  is_hint_forwardref :: "pyobj \<Rightarrow> bool"
  is_hint_pep484_newtype :: "pyobj \<Rightarrow> bool"
  is_hint_pep585_builtin :: "pyobj \<Rightarrow> bool"
  is_hint_pep585_generic :: "pyobj \<Rightarrow> bool"
  get_hint_pep585_generic_typevars :: "pyobj \<Rightarrow> pyerror + pyobj"
  get_hint_pep585_generic_bases_unerased :: "pyobj \<Rightarrow> pyerror + pyobj list"
  get_hint_pep484_generic_bases_unerased :: "pyobj \<Rightarrow> pyerror + pyobj list"
  get_hint_repr :: "pyobj \<Rightarrow> string"

section \<open>utilhintpepget: getters\<close>

subsection \<open>Type arguments\<close>

definition get_hint_pep_args :: "host \<Rightarrow> pyobj \<Rightarrow> pyobj" where
  "get_hint_pep_args h hint =
     (if IS_PYTHON_AT_LEAST_3_7 h then
        py_getattr hint ''__args__'' (PyTuple [])
      else
        (case hint of
           PyTypeAlias r n tv it \<Rightarrow>
             (if is_hint_pep_typevar h tv then PyTuple [] else PyTuple [tv])
         | _ \<Rightarrow> py_or (py_getattr hint ''__args__'' (PyTuple [])) (PyTuple [])))"

subsection \<open>Type variables\<close>

definition get_hint_pep_typevars :: "host \<Rightarrow> pyobj \<Rightarrow> pyerror + pyobj" where
  "get_hint_pep_typevars h hint =
     (if IS_PYTHON_AT_LEAST_3_9 h then
        (let hint_pep_typevars = py_getattr hint ''__parameters__'' PyNone in
         if hint_pep_typevars = PyNone then
           (if is_hint_pep585_generic h hint
            then get_hint_pep585_generic_typevars h hint
            else Inr (PyTuple []))
         else Inr hint_pep_typevars)
      else if IS_PYTHON_AT_LEAST_3_7 h then
        Inr (py_getattr hint ''__parameters__'' (PyTuple []))
      else
        (case hint of
           PyTypeAlias r n tv it \<Rightarrow>
             (if is_hint_pep_typevar h tv then Inr (PyTuple [tv]) else Inr (PyTuple []))
         | _ \<Rightarrow> Inr (py_or (py_getattr hint ''__parameters__'' (PyTuple [])) (PyTuple []))))"

subsection \<open>Origin object\<close>

text \<open>
  The private getter \<^verbatim>\<open>_get_hint_pep_origin_object_or_none\<close> (an Isabelle name cannot
  start with an underscore).
\<close>

definition get_hint_pep_origin_object_or_none :: "host \<Rightarrow> pyobj \<Rightarrow> pyobj" where
  "get_hint_pep_origin_object_or_none h hint =
     (if IS_PYTHON_AT_LEAST_3_7 h then
        py_getattr hint ''__origin__'' PyNone
      else
        (case hint of
           PyTypeAlias r n tv it \<Rightarrow> it
         | _ \<Rightarrow>
             (let hint_extra = py_getattr hint ''__extra__'' SENTINEL in
              if hint_extra \<noteq> PyNone then hint_extra
              else py_getattr hint ''__origin__'' PyNone)))"

subsection \<open>Sign\<close>

text \<open>The dictionary \<^verbatim>\<open>_HINT_PEP_TYPING_NAME_BAD_TO_GOOD\<close> and its \<^verbatim>\<open>get(key, default)\<close>.\<close>

definition HINT_PEP_TYPING_NAME_BAD_TO_GOOD :: "string \<rightharpoonup> string" where
  "HINT_PEP_TYPING_NAME_BAD_TO_GOOD =
     [''AbstractContextManager'' \<mapsto> ''ContextManager'',
      ''AbstractAsyncContextManager'' \<mapsto> ''AsyncContextManager'']"

definition dict_get :: "(string \<rightharpoonup> string) \<Rightarrow> string \<Rightarrow> string \<Rightarrow> string" where
  "dict_get d key dflt = (case d key of None \<Rightarrow> dflt | Some v \<Rightarrow> v)"

text \<open>
  The test of the fourth branch of \<^verbatim>\<open>get_hint_pep_sign\<close>,
  \<^verbatim>\<open>isinstance(hint, type) and not (get_hint_pep_args(hint) or get_hint_pep_typevars(hint))\<close>.
  Its operands are evaluated from left to right, and no further than the result needs.
\<close>

definition is_hint_class_unsubscripted :: "host \<Rightarrow> pyobj \<Rightarrow> pyerror + bool" where
  "is_hint_class_unsubscripted h hint =
     (if isinstance_type hint then
        (if py_truthy (get_hint_pep_args h hint) then Inr False
         else
           (case get_hint_pep_typevars h hint of
              Inl e \<Rightarrow> Inl e
            | Inr tvs \<Rightarrow> Inr (\<not> py_truthy tvs)))
      else Inr False)"

text \<open>The slot \<^verbatim>\<open>name\<close> of a \<^verbatim>\<open>typing._TypeAlias\<close> instance.\<close>

fun TypeAlias_name :: "pyobj \<Rightarrow> string" where
  "TypeAlias_name (PyTypeAlias r n tv it) = n"
| "TypeAlias_name _ = []"

text \<open>
  \<^verbatim>\<open>get_hint_pep_sign\<close>. The decorator \<^verbatim>\<open>callable_cached\<close> memoizes a function of
  its argument alone and is transparent here.
\<close>

definition get_hint_pep_sign :: "host \<Rightarrow> pyobj \<Rightarrow> pyerror + pyobj" where
  \<open>get_hint_pep_sign h hint =
     (case die_unless_hint_pep h hint of
        Some e \<Rightarrow> Inl e
      | None \<Rightarrow>
          if hint = PyNone then Inr NoneType
          else if is_hint_pep_generic h hint then Inr Generic
          else if is_hint_pep585_builtin h hint then py_attr hint ''__origin__''
          else
            (case is_hint_class_unsubscripted h hint of
               Inl e \<Rightarrow> Inl e
             | Inr True \<Rightarrow>
                 if hint \<notin> set (HINT_PEP_SIGNS_TYPE h) then
                   Inl (BeartypeDecorHintPepSignException
                         (''Unsubscripted non-generic class '' @ py_repr hint @
                          '' invalid as sign (i.e., not in '' @
                          repr_frozenset (HINT_PEP_SIGNS_TYPE h) @ '').''))
                 else Inr hint
             | Inr False \<Rightarrow>
                 if is_hint_forwardref h hint then Inr (HINT_PEP484_TYPE_FORWARDREF h)
                 else if is_hint_pep484_newtype h hint then Inr NewType
                 else if is_hint_pep_typevar h hint then Inr TypeVar
                 else if IS_PYTHON_3_6 h \<and> isinstance_TypeAlias hint then
                   module_attr (typing h) (TypeAlias_name hint)
                 else
                   (let hint_name = py_repr hint;
                        (hint_module_name, sep1, hint_module_attr_name) =
                          str_partition hint_name CHR ''.''
                    in
                    if hint_module_name \<notin> HINT_PEP_MODULE_NAMES h then
                      Inl (BeartypeDecorHintPepSignException
                            (''Type hint '' @ py_repr hint @ '' representation "'' @
                             hint_name @
                             ''" not prefixed by "typing." or "typing_extensions.".''))
                    else
                      (let (sign_name, sep2, rest) =
                             str_partition hint_module_attr_name CHR ''['';
                           sign_name =
                             dict_get HINT_PEP_TYPING_NAME_BAD_TO_GOOD sign_name sign_name
                       in
                       case import_module h hint_module_name of
                         Inl msg \<Rightarrow> Inl (BeartypeDecorHintPepSignException msg)
                       | Inr hint_module \<Rightarrow>
                           (let sign = module_getattr_or_none hint_module sign_name in
                            if sign = PyNone then
                              Inl (BeartypeDecorHintPepSignException
                                    (''Type hint '' @ py_repr hint @
                                     '' attribute "typing.'' @ sign_name @
                                     ''" not found.''))
                            else Inr sign)))))\<close>

subsection \<open>Generic type\<close>

definition get_hint_pep_generic_type_or_none :: "host \<Rightarrow> pyobj \<Rightarrow> pyobj" where
  "get_hint_pep_generic_type_or_none h hint =
     (let hint_origin = get_hint_pep_origin_object_or_none h hint in
      if isinstance_type hint_origin then hint_origin
      else if isinstance_type hint then hint
      else PyNone)"

subsection \<open>Standard library origin type\<close>

definition get_hint_pep_stdlib_type_or_none :: "host \<Rightarrow> pyobj \<Rightarrow> pyerror + pyobj" where
  "get_hint_pep_stdlib_type_or_none h hint =
     (case get_hint_pep_sign h hint of
        Inl e \<Rightarrow> Inl e
      | Inr hint_sign \<Rightarrow>
          Inr (if hint_sign \<in> HINT_PEP_SIGNS_TYPE_ORIGIN_STDLIB h
               then get_hint_pep_origin_object_or_none h hint
               else PyNone))"

definition get_hint_pep_stdlib_type :: "host \<Rightarrow> pyobj \<Rightarrow> pyerror + pyobj" where
  "get_hint_pep_stdlib_type h hint =
     (case get_hint_pep_stdlib_type_or_none h hint of
        Inl e \<Rightarrow> Inl e
      | Inr hint_type_origin \<Rightarrow>
          if hint_type_origin = PyNone then
            Inl (BeartypeDecorHintPepException
                  (''PEP type hint '' @ py_repr hint @
                   '' not originative (i.e., does not originate from external class).''))
          else Inr hint_type_origin)"

subsection \<open>Unerased pseudo-superclasses\<close>

definition get_hint_pep_generic_bases_unerased :: "host \<Rightarrow> pyobj \<Rightarrow> pyerror + pyobj list" where
  "get_hint_pep_generic_bases_unerased h hint =
     (case (if is_hint_pep585_generic h hint
            then get_hint_pep585_generic_bases_unerased h hint
            else get_hint_pep484_generic_bases_unerased h hint) of
        Inl e \<Rightarrow> Inl e
      | Inr hint_pep_generic_bases_unerased \<Rightarrow>
          if hint_pep_generic_bases_unerased = [] then
            Inl (BeartypeDecorHintPepException
                  (''PEP generic '' @ py_repr hint @ '' subclasses no superclasses.''))
          else Inr hint_pep_generic_bases_unerased)"

section \<open>utilpep484: testers and reducers\<close>

definition is_hint_pep484_typevar_ignorable :: "pyobj \<Rightarrow> bool" where
  "is_hint_pep484_typevar_ignorable hint = True"

text \<open>
  Modelled from the spec: \<^verbatim>\<open>issue_warning\<close> of \<^verbatim>\<open>beartype._util.error.utilerrwarn\<close>
  is not among the sources. It is the spec's signal-emission facility
  \<^verbatim>\<open>emit_advisory(signal_kind, message)\<close>: it emits one advisory signal of the given
  category carrying the message and returns. The signals emitted so far are the state.
\<close>

definition issue_warning :: "(string \<Rightarrow> pywarning) \<Rightarrow> string \<Rightarrow> pywarning list \<Rightarrow> pywarning list" where
  "issue_warning cls message emitted = emitted @ [cls message]"

text \<open>
  \<^verbatim>\<open>reduce_hint_pep484_deprecated(hint, exception_prefix)\<close>, on the warnings emitted
  so far; the result pairs what the call returns or raises with the warnings emitted
  afterwards. An \<^verbatim>\<open>assert\<close> that fails raises \<^verbatim>\<open>AssertionError\<close>.
\<close>

definition reduce_hint_pep484_deprecated ::
    "host \<Rightarrow> pyobj \<Rightarrow> pyobj \<Rightarrow> pywarning list \<Rightarrow> (pyerror + pyobj) \<times> pywarning list" where
  \<open>reduce_hint_pep484_deprecated h hint exception_prefix emitted =
     (case exception_prefix of
        PyStr prefix \<Rightarrow>
          (let hint_repr = get_hint_repr h hint;
               (hint_repr_bare, sep, rest) = str_partition hint_repr CHR ''[''
           in
           (Inr hint,
            if hint_repr_bare \<in> HINTS_PEP484_REPR_PREFIX_DEPRECATED h then
              issue_warning BeartypeDecorHintPep585DeprecationWarning
                (prefix @ ''PEP 484 type hint '' @ py_repr hint @
                 '' deprecated by PEP 585. '' @
                 ''This hint is scheduled for removal in the first Python '' @
                 ''version released after October 5th, 2025. To resolve this, '' @
                 ''import this hint from "beartype.typing" rather than "typing". '' @
                 ''For further commentary and alternatives, see also:'' @ [CHR 0x0A] @
                 ''    '' @ URL_PEP585_DEPRECATIONS h)
                emitted
            else emitted))
      | _ \<Rightarrow>
          (Inl (AssertionError (py_repr exception_prefix @ '' not string.'')), emitted))\<close>

definition reduce_hint_pep484_none :: "pyobj \<Rightarrow> pyerror + pyobj" where
  \<open>reduce_hint_pep484_none hint =
     (if hint = PyNone then Inr NoneType
      else Inl (AssertionError (''Type hint '' @ py_str hint @ '' not "None" singleton.'')))\<close>

section \<open>Sample hints and hosts\<close>

text \<open>
  Concrete objects on which the theorems below are exercised: builtin classes, a type
  variable, \<^verbatim>\<open>typing\<close> singletons and their subscriptions, a \<^verbatim>\<open>list[int]\<close> alias,
  a user-defined generic \<^verbatim>\<open>class MuhGeneric(Generic[T])\<close> and a user-defined
  \<^verbatim>\<open>class MuhList(list[T])\<close> with their subscriptions, the Python 3.6 type alias
  \<^verbatim>\<open>typing.Pattern[str]\<close>, the Python 3.6 class \<^verbatim>\<open>typing.Tuple\<close>, and two hints
  whose representation names no attribute of a hinting module.
\<close>

definition ex_int :: pyobj where
  "ex_int = PyObject True ''<class 'int'>'' []"

definition ex_str :: pyobj where
  "ex_str = PyObject True ''<class 'str'>'' []"

definition ex_list :: pyobj where
  "ex_list = PyObject True ''<class 'list'>'' []"

definition ex_T :: pyobj where
  "ex_T = PyObject False ''~T'' []"

definition ex_ForwardRef :: pyobj where
  "ex_ForwardRef = PyObject True ''<class 'typing.ForwardRef'>'' []"

definition ex_NamedTuple :: pyobj where
  "ex_NamedTuple = PyObject True ''<class 'typing.NamedTuple'>'' []"

definition ex_Any :: pyobj where
  "ex_Any = PyObject False ''typing.Any'' []"

definition ex_List :: pyobj where
  "ex_List =
     PyObject False ''typing.List''
       [(''__origin__'', ex_list), (''__args__'', PyTuple [ex_T]),
        (''__parameters__'', PyTuple [ex_T])]"

definition ex_List_int :: pyobj where
  "ex_List_int =
     PyObject False ''typing.List[int]''
       [(''__origin__'', ex_list), (''__args__'', PyTuple [ex_int]),
        (''__parameters__'', PyTuple [])]"

definition ex_ContextManager :: pyobj where
  "ex_ContextManager = PyObject False ''typing.AbstractContextManager'' []"

definition ex_ContextManager_str :: pyobj where
  "ex_ContextManager_str =
     PyObject False ''typing.AbstractContextManager[str]''
       [(''__args__'', PyTuple [ex_str]), (''__parameters__'', PyTuple [])]"

definition ex_list_int :: pyobj where
  "ex_list_int =
     PyObject False ''list[int]''
       [(''__origin__'', ex_list), (''__args__'', PyTuple [ex_int]),
        (''__parameters__'', PyTuple [])]"

definition ex_Generic_T :: pyobj where
  "ex_Generic_T =
     PyObject False ''typing.Generic[~T]''
       [(''__origin__'', Generic), (''__args__'', PyTuple [ex_T]),
        (''__parameters__'', PyTuple [ex_T])]"

definition ex_MuhGeneric :: pyobj where
  "ex_MuhGeneric =
     PyObject True ''<class '__main__.MuhGeneric'>''
       [(''__parameters__'', PyTuple [ex_T]), (''__orig_bases__'', PyTuple [ex_Generic_T])]"

definition ex_MuhGeneric_int :: pyobj where
  "ex_MuhGeneric_int =
     PyObject False ''__main__.MuhGeneric[int]''
       [(''__origin__'', ex_MuhGeneric), (''__args__'', PyTuple [ex_int]),
        (''__parameters__'', PyTuple [])]"

definition ex_MuhList :: pyobj where
  "ex_MuhList = PyObject True ''<class '__main__.MuhList'>'' [(''__orig_bases__'', PyTuple [])]"

definition ex_MuhList_int :: pyobj where
  "ex_MuhList_int =
     PyObject False ''__main__.MuhList[int]''
       [(''__origin__'', ex_MuhList), (''__args__'', PyTuple [ex_int]),
        (''__parameters__'', PyTuple [])]"

definition ex_re_Pattern :: pyobj where
  "ex_re_Pattern = PyObject True ''<class '_sre.SRE_Pattern'>'' []"

definition ex_AnyStr :: pyobj where
  "ex_AnyStr = PyObject False ''~AnyStr'' []"

definition ex_Pattern :: pyobj where
  "ex_Pattern = PyTypeAlias ''Pattern[~AnyStr]'' ''Pattern'' ex_AnyStr ex_re_Pattern"

definition ex_Pattern_str :: pyobj where
  "ex_Pattern_str = PyTypeAlias ''Pattern[str]'' ''Pattern'' ex_str ex_re_Pattern"

text \<open>Under Python 3.6 the class \<^verbatim>\<open>typing.Tuple\<close> has \<^verbatim>\<open>__args__\<close> set to \<^verbatim>\<open>None\<close>.\<close>

definition ex_Tuple_36 :: pyobj where
  "ex_Tuple_36 = PyObject True ''typing.Tuple'' [(''__args__'', PyNone)]"

definition ex_Frobnicate_int :: pyobj where
  "ex_Frobnicate_int = PyObject False ''typing.Frobnicate[int]'' []"

definition ex_NDArray_int :: pyobj where
  "ex_NDArray_int = PyObject False ''nptyping.NDArray[int]'' []"

text \<open>Under Python 3.6 a subscription such as \<^verbatim>\<open>typing.List[int]\<close> is itself a class.\<close>

definition ex_List_int_36 :: pyobj where
  "ex_List_int_36 =
     PyObject True ''typing.List[int]''
       [(''__extra__'', ex_list), (''__args__'', PyTuple [ex_int])]"

definition ex_typing :: pymodule where
  "ex_typing =
     map_of
       [(''Any'', ex_Any), (''List'', ex_List), (''ContextManager'', ex_ContextManager),
        (''Generic'', Generic), (''TypeVar'', TypeVar), (''NewType'', NewType),
        (''Pattern'', ex_Pattern)]"

text \<open>
  A Python 3.9 host. Its validity check rejects the builtin classes and accepts
  everything else; \<^verbatim>\<open>typing_extensions\<close> is not installed on it.
\<close>

definition ex_host39 :: host where
  \<open>ex_host39 =
     \<lparr> IS_PYTHON_3_6 = False,
       IS_PYTHON_AT_LEAST_3_7 = True,
       IS_PYTHON_AT_LEAST_3_9 = True,
       HINT_PEP_MODULE_NAMES = {''typing'', ''typing_extensions''},
       HINT_PEP_SIGNS_TYPE = [Generic, TypeVar, ex_ForwardRef],
       HINT_PEP_SIGNS_TYPE_ORIGIN_STDLIB = {ex_list, ex_List},
       HINT_PEP484_TYPE_FORWARDREF = ex_ForwardRef,
       HINTS_PEP484_REPR_PREFIX_DEPRECATED = {''typing.List'', ''typing.Dict''},
       URL_PEP585_DEPRECATIONS = ''https://github.com/beartype/beartype#pep-585-deprecations'',
       typing = ex_typing,
       import_module =
         (\<lambda>name. if name = ''typing'' then Inr ex_typing
                  else Inl (''Module "'' @ name @ ''" not found.'')),
       die_unless_hint_pep =
         (\<lambda>hint. if hint \<in> set [ex_int, ex_str, ex_list]
                  then Some (BeartypeDecorHintPepException
                              (py_repr hint @ '' not PEP-compliant.''))
                  else None),
       is_hint_pep_generic =
         (\<lambda>hint. hint \<in> set [ex_MuhGeneric, ex_MuhGeneric_int, ex_MuhList, ex_MuhList_int]),
       is_hint_pep_typevar = (\<lambda>hint. hint \<in> set [ex_T, ex_AnyStr]),
       is_hint_forwardref = (\<lambda>hint. case hint of PyStr s \<Rightarrow> True | _ \<Rightarrow> False),
       is_hint_pep484_newtype = (\<lambda>hint. False),
       is_hint_pep585_builtin = (\<lambda>hint. hint \<in> set [ex_list_int, ex_MuhList_int]),
       is_hint_pep585_generic = (\<lambda>hint. hint \<in> set [ex_MuhList, ex_MuhList_int]),
       get_hint_pep585_generic_typevars = (\<lambda>hint. Inr (PyTuple [])),
       get_hint_pep585_generic_bases_unerased =
         (\<lambda>hint. case py_lookup (py_getattr hint ''__origin__'' hint) ''__orig_bases__'' of
                    Some (PyTuple bases) \<Rightarrow> Inr bases
                  | _ \<Rightarrow> Inl (BeartypeDecorHintPepException
                               (py_repr hint @ '' not PEP 585 generic.''))),
       get_hint_pep484_generic_bases_unerased =
         (\<lambda>hint. case py_lookup (py_getattr hint ''__origin__'' hint) ''__orig_bases__'' of
                    Some (PyTuple bases) \<Rightarrow> Inr bases
                  | _ \<Rightarrow> Inl (BeartypeDecorHintPepException
                               (py_repr hint @ '' not PEP 484 generic.''))),
       get_hint_repr = py_repr \<rparr>\<close>

text \<open>The same host under Python 3.6.\<close>

definition ex_host36 :: host where
  "ex_host36 =
     ex_host39 \<lparr> IS_PYTHON_3_6 := True,
                 IS_PYTHON_AT_LEAST_3_7 := False,
                 IS_PYTHON_AT_LEAST_3_9 := False \<rparr>"

lemmas ex_obj_defs =
  ex_int_def ex_str_def ex_list_def ex_T_def ex_ForwardRef_def ex_NamedTuple_def ex_Any_def
  ex_List_def ex_List_int_def ex_ContextManager_def ex_ContextManager_str_def ex_list_int_def
  ex_Generic_T_def ex_MuhGeneric_def ex_MuhGeneric_int_def ex_MuhList_def ex_MuhList_int_def
  ex_re_Pattern_def ex_AnyStr_def ex_Pattern_def ex_Pattern_str_def ex_Tuple_36_def
  ex_Frobnicate_int_def ex_NDArray_int_def ex_List_int_36_def
  NoneType_def Generic_def TypeVar_def NewType_def SENTINEL_def

lemmas ex_host_defs = ex_host39_def ex_host36_def ex_typing_def

section \<open>String partitioning\<close>

text \<open>
  \<open>str_partition\<close> splits at the first occurrence of the separator, as
  \<^verbatim>\<open>str.partition\<close> does: the head holds no separator, and head, separator and tail
  make up the string again; a string without the separator comes back whole.
\<close>

lemma str_partition_found:
  assumes "sep \<in> set s" and "str_partition s sep = (before, mid, after)"
  shows "s = before @ [sep] @ after \<and> sep \<notin> set before \<and> mid = [sep]"
proof -
  from assms(1) have ne: "dropWhile (\<lambda>c. c \<noteq> sep) s \<noteq> []"
    by (simp add: dropWhile_eq_Nil_conv)
  then have hd: "hd (dropWhile (\<lambda>c. c \<noteq> sep) s) = sep"
    using hd_dropWhile [of "\<lambda>c. c \<noteq> sep" s] by simp
  have "s = takeWhile (\<lambda>c. c \<noteq> sep) s @ dropWhile (\<lambda>c. c \<noteq> sep) s"
    by simp
  also have "dropWhile (\<lambda>c. c \<noteq> sep) s = [sep] @ tl (dropWhile (\<lambda>c. c \<noteq> sep) s)"
    using ne hd by (cases "dropWhile (\<lambda>c. c \<noteq> sep) s") simp_all
  finally have "s = takeWhile (\<lambda>c. c \<noteq> sep) s @ [sep] @ tl (dropWhile (\<lambda>c. c \<noteq> sep) s)" .
  moreover have "sep \<notin> set (takeWhile (\<lambda>c. c \<noteq> sep) s)"
    by (auto dest: set_takeWhileD)
  ultimately show ?thesis
    using assms by (simp add: str_partition_def)
qed

lemma str_partition_missing:
  "sep \<notin> set s \<Longrightarrow> str_partition s sep = (s, [], [])"
  by (simp add: str_partition_def)

section \<open>The sign classifier\<close>

text \<open>
  C1. Every hint that passes the validity check and that the generic tester
  \<^verbatim>\<open>is_hint_pep_generic\<close> accepts (the tester accepts classes and their
  subscriptions, never \<^verbatim>\<open>None\<close>) has the sign \<^verbatim>\<open>typing.Generic\<close>. Nothing is
  assumed about the later branches: the hint may also be a parameterized builtin, a bare
  class, or have a representation naming a \<^verbatim>\<open>typing\<close> attribute, and the sign is
  still \<^verbatim>\<open>typing.Generic\<close>. A generic and each of its subscriptions therefore have
  the same sign.
\<close>

theorem generic_sign_is_Generic:
  assumes "die_unless_hint_pep h hint = None"
    and "hint \<noteq> PyNone"
    and "is_hint_pep_generic h hint"
  shows "get_hint_pep_sign h hint = Inr Generic"
  using assms by (simp add: get_hint_pep_sign_def)

text \<open>
  On the sample host: the class \<^verbatim>\<open>MuhGeneric\<close>, its subscription
  \<^verbatim>\<open>MuhGeneric[int]\<close>, and \<^verbatim>\<open>MuhList[int]\<close>, which the parameterized-builtin tester
  accepts as well.
\<close>

theorem generic_sign_is_Generic_witness:
  "is_hint_pep_generic ex_host39 ex_MuhGeneric \<and>
   is_hint_pep_generic ex_host39 ex_MuhGeneric_int \<and>
   is_hint_pep_generic ex_host39 ex_MuhList_int \<and>
   is_hint_pep585_builtin ex_host39 ex_MuhList_int \<and>
   get_hint_pep_sign ex_host39 ex_MuhGeneric = Inr Generic \<and>
   get_hint_pep_sign ex_host39 ex_MuhGeneric_int = Inr Generic \<and>
   get_hint_pep_sign ex_host39 ex_MuhList_int = Inr Generic"
proof -
  have v: "die_unless_hint_pep ex_host39 ex_MuhGeneric = None"
    "die_unless_hint_pep ex_host39 ex_MuhGeneric_int = None"
    "die_unless_hint_pep ex_host39 ex_MuhList_int = None"
    by (simp_all add: ex_host_defs ex_obj_defs)
  have n: "ex_MuhGeneric \<noteq> PyNone" "ex_MuhGeneric_int \<noteq> PyNone" "ex_MuhList_int \<noteq> PyNone"
    by (simp_all add: ex_obj_defs)
  have g: "is_hint_pep_generic ex_host39 ex_MuhGeneric"
    "is_hint_pep_generic ex_host39 ex_MuhGeneric_int"
    "is_hint_pep_generic ex_host39 ex_MuhList_int"
    by (simp_all add: ex_host_defs)
  have b: "is_hint_pep585_builtin ex_host39 ex_MuhList_int"
    by (simp add: ex_host_defs)
  show ?thesis
    using g b generic_sign_is_Generic [OF v(1) n(1) g(1)]
      generic_sign_is_Generic [OF v(2) n(2) g(2)]
      generic_sign_is_Generic [OF v(3) n(3) g(3)]
    by simp
qed

text \<open>
  C2, as the code has it. Let a valid hint be matched by none of the structural
  branches: it is not \<^verbatim>\<open>None\<close>, not a generic, not a parameterized builtin, not a class
  without type arguments and type parameters, not a forward reference, not a new type,
  not a type variable and, under Python 3.6, not a \<^verbatim>\<open>typing._TypeAlias\<close> instance.
  Split its representation at the first \<^verbatim>\<open>.\<close> into a module name and an attribute
  path, split the path at the first \<^verbatim>\<open>[\<close>, and pass the unsubscripted name through
  the table of misnamed attributes. Then:
  \<^item> when the module name is not in \<^verbatim>\<open>HINT_PEP_MODULE_NAMES\<close>, the getter raises
    \<^verbatim>\<open>BeartypeDecorHintPepSignException\<close> with a message containing the hint's
    representation;
  \<^item> when the module name is in that set, the module is importable and holds the
    corrected attribute (with a value other than \<^verbatim>\<open>None\<close>), the getter returns that
    attribute;
  \<^item> when the module name is in that set, the module is importable and lacks the
    corrected attribute, the getter raises \<^verbatim>\<open>BeartypeDecorHintPepSignException\<close>
    with a message containing the hint's representation.
\<close>

theorem sign_from_representation:
  assumes "die_unless_hint_pep h hint = None"
    and "hint \<noteq> PyNone"
    and "\<not> is_hint_pep_generic h hint"
    and "\<not> is_hint_pep585_builtin h hint"
    and "is_hint_class_unsubscripted h hint = Inr False"
    and "\<not> is_hint_forwardref h hint"
    and "\<not> is_hint_pep484_newtype h hint"
    and "\<not> is_hint_pep_typevar h hint"
    and "\<not> (IS_PYTHON_3_6 h \<and> isinstance_TypeAlias hint)"
    and "str_partition (py_repr hint) CHR ''.'' = (hint_module_name, sep1, hint_module_attr_name)"
    and "str_partition hint_module_attr_name CHR ''['' = (unsubscripted, sep2, rest)"
    and "sign_name = dict_get HINT_PEP_TYPING_NAME_BAD_TO_GOOD unsubscripted unsubscripted"
  shows "(hint_module_name \<notin> HINT_PEP_MODULE_NAMES h \<longrightarrow>
           (\<exists>pre post. get_hint_pep_sign h hint =
              Inl (BeartypeDecorHintPepSignException (pre @ py_repr hint @ post)))) \<and>
         (\<forall>hint_module sign.
            hint_module_name \<in> HINT_PEP_MODULE_NAMES h \<and>
            import_module h hint_module_name = Inr hint_module \<and>
            hint_module sign_name = Some sign \<and> sign \<noteq> PyNone \<longrightarrow>
            get_hint_pep_sign h hint = Inr sign) \<and>
         (\<forall>hint_module.
            hint_module_name \<in> HINT_PEP_MODULE_NAMES h \<and>
            import_module h hint_module_name = Inr hint_module \<and>
            hint_module sign_name = None \<longrightarrow>
            (\<exists>pre post. get_hint_pep_sign h hint =
               Inl (BeartypeDecorHintPepSignException (pre @ py_repr hint @ post))))"
proof -
  let ?fallback =
    "if hint_module_name \<notin> HINT_PEP_MODULE_NAMES h then
       Inl (BeartypeDecorHintPepSignException
             (''Type hint '' @ py_repr hint @ '' representation '' @ [CHR 0x22] @
              py_repr hint @ [CHR 0x22] @
              '' not prefixed by '' @ [CHR 0x22] @ ''typing.'' @ [CHR 0x22] @ '' or '' @
              [CHR 0x22] @ ''typing_extensions.'' @ [CHR 0x22] @ ''.''))
     else
       (case import_module h hint_module_name of
          Inl msg \<Rightarrow> Inl (BeartypeDecorHintPepSignException msg)
        | Inr hint_module \<Rightarrow>
            if module_getattr_or_none hint_module sign_name = PyNone then
              Inl (BeartypeDecorHintPepSignException
                    (''Type hint '' @ py_repr hint @ '' attribute '' @ [CHR 0x22] @
                     ''typing.'' @ sign_name @ [CHR 0x22] @ '' not found.''))
            else Inr (module_getattr_or_none hint_module sign_name))"
  from assms(9) consider "\<not> IS_PYTHON_3_6 h" | "\<not> isinstance_TypeAlias hint"
    by blast
  then have eq: "get_hint_pep_sign h hint = ?fallback"
    using assms(1-8,10-12)
    by cases (simp_all add: get_hint_pep_sign_def Let_def split: sum.splits)
  have a: "hint_module_name \<notin> HINT_PEP_MODULE_NAMES h \<longrightarrow>
           (\<exists>pre post. get_hint_pep_sign h hint =
              Inl (BeartypeDecorHintPepSignException (pre @ py_repr hint @ post)))"
    unfolding eq by (auto intro: exI [of _ "''Type hint ''"])
  have b: "\<forall>hint_module sign.
            hint_module_name \<in> HINT_PEP_MODULE_NAMES h \<and>
            import_module h hint_module_name = Inr hint_module \<and>
            hint_module sign_name = Some sign \<and> sign \<noteq> PyNone \<longrightarrow>
            get_hint_pep_sign h hint = Inr sign"
    unfolding eq by (simp add: module_getattr_or_none_def)
  have c: "\<forall>hint_module.
            hint_module_name \<in> HINT_PEP_MODULE_NAMES h \<and>
            import_module h hint_module_name = Inr hint_module \<and>
            hint_module sign_name = None \<longrightarrow>
            (\<exists>pre post. get_hint_pep_sign h hint =
               Inl (BeartypeDecorHintPepSignException (pre @ py_repr hint @ post)))"
    unfolding eq by (auto simp: module_getattr_or_none_def intro: exI [of _ "''Type hint ''"])
  from a b c show ?thesis by blast
qed

text \<open>
  On the sample host: \<^verbatim>\<open>typing.ContextManager[str]\<close>, whose representation is
  \<^verbatim>\<open>typing.AbstractContextManager[str]\<close>, has the sign \<^verbatim>\<open>typing.ContextManager\<close>;
  a hint naming a missing attribute of \<^verbatim>\<open>typing\<close> and a hint of an unrecognized
  module are refused.
\<close>

theorem sign_from_representation_witness:
  "str_partition (py_repr ex_ContextManager_str) CHR ''.'' =
     (''typing'', ''.'', ''AbstractContextManager[str]'') \<and>
   str_partition ''AbstractContextManager[str]'' CHR ''['' =
     (''AbstractContextManager'', ''['', ''str]'') \<and>
   dict_get HINT_PEP_TYPING_NAME_BAD_TO_GOOD ''AbstractContextManager'' ''AbstractContextManager'' =
     ''ContextManager'' \<and>
   get_hint_pep_sign ex_host39 ex_ContextManager_str = Inr ex_ContextManager \<and>
   (\<exists>pre post. get_hint_pep_sign ex_host39 ex_Frobnicate_int =
      Inl (BeartypeDecorHintPepSignException (pre @ py_repr ex_Frobnicate_int @ post))) \<and>
   (\<exists>pre post. get_hint_pep_sign ex_host39 ex_NDArray_int =
      Inl (BeartypeDecorHintPepSignException (pre @ py_repr ex_NDArray_int @ post)))"
proof -
  have a: "die_unless_hint_pep ex_host39 ex_ContextManager_str = None"
    "ex_ContextManager_str \<noteq> PyNone"
    "\<not> is_hint_pep_generic ex_host39 ex_ContextManager_str"
    "\<not> is_hint_pep585_builtin ex_host39 ex_ContextManager_str"
    "is_hint_class_unsubscripted ex_host39 ex_ContextManager_str = Inr False"
    "\<not> is_hint_forwardref ex_host39 ex_ContextManager_str"
    "\<not> is_hint_pep484_newtype ex_host39 ex_ContextManager_str"
    "\<not> is_hint_pep_typevar ex_host39 ex_ContextManager_str"
    "\<not> (IS_PYTHON_3_6 ex_host39 \<and> isinstance_TypeAlias ex_ContextManager_str)"
    "str_partition (py_repr ex_ContextManager_str) CHR ''.'' =
       (''typing'', ''.'', ''AbstractContextManager[str]'')"
    "str_partition ''AbstractContextManager[str]'' CHR ''['' =
       (''AbstractContextManager'', ''['', ''str]'')"
    by (simp_all add: ex_host_defs ex_obj_defs is_hint_class_unsubscripted_def str_partition_def)
  have a': "''ContextManager'' =
      dict_get HINT_PEP_TYPING_NAME_BAD_TO_GOOD ''AbstractContextManager'' ''AbstractContextManager''"
    by (simp add: dict_get_def HINT_PEP_TYPING_NAME_BAD_TO_GOOD_def)
  have am: "''typing'' \<in> HINT_PEP_MODULE_NAMES ex_host39"
    "import_module ex_host39 ''typing'' = Inr ex_typing"
    "ex_typing ''ContextManager'' = Some ex_ContextManager"
    "ex_ContextManager \<noteq> PyNone"
    by (simp_all add: ex_host_defs ex_obj_defs)
  have b: "die_unless_hint_pep ex_host39 ex_Frobnicate_int = None"
    "ex_Frobnicate_int \<noteq> PyNone"
    "\<not> is_hint_pep_generic ex_host39 ex_Frobnicate_int"
    "\<not> is_hint_pep585_builtin ex_host39 ex_Frobnicate_int"
    "is_hint_class_unsubscripted ex_host39 ex_Frobnicate_int = Inr False"
    "\<not> is_hint_forwardref ex_host39 ex_Frobnicate_int"
    "\<not> is_hint_pep484_newtype ex_host39 ex_Frobnicate_int"
    "\<not> is_hint_pep_typevar ex_host39 ex_Frobnicate_int"
    "\<not> (IS_PYTHON_3_6 ex_host39 \<and> isinstance_TypeAlias ex_Frobnicate_int)"
    "str_partition (py_repr ex_Frobnicate_int) CHR ''.'' = (''typing'', ''.'', ''Frobnicate[int]'')"
    "str_partition ''Frobnicate[int]'' CHR ''['' = (''Frobnicate'', ''['', ''int]'')"
    by (simp_all add: ex_host_defs ex_obj_defs is_hint_class_unsubscripted_def str_partition_def)
  have b': "''Frobnicate'' = dict_get HINT_PEP_TYPING_NAME_BAD_TO_GOOD ''Frobnicate'' ''Frobnicate''"
    by (simp add: dict_get_def HINT_PEP_TYPING_NAME_BAD_TO_GOOD_def)
  have bm: "ex_typing ''Frobnicate'' = None"
    by (simp add: ex_host_defs)
  have c: "die_unless_hint_pep ex_host39 ex_NDArray_int = None"
    "ex_NDArray_int \<noteq> PyNone"
    "\<not> is_hint_pep_generic ex_host39 ex_NDArray_int"
    "\<not> is_hint_pep585_builtin ex_host39 ex_NDArray_int"
    "is_hint_class_unsubscripted ex_host39 ex_NDArray_int = Inr False"
    "\<not> is_hint_forwardref ex_host39 ex_NDArray_int"
    "\<not> is_hint_pep484_newtype ex_host39 ex_NDArray_int"
    "\<not> is_hint_pep_typevar ex_host39 ex_NDArray_int"
    "\<not> (IS_PYTHON_3_6 ex_host39 \<and> isinstance_TypeAlias ex_NDArray_int)"
    "str_partition (py_repr ex_NDArray_int) CHR ''.'' = (''nptyping'', ''.'', ''NDArray[int]'')"
    "str_partition ''NDArray[int]'' CHR ''['' = (''NDArray'', ''['', ''int]'')"
    by (simp_all add: ex_host_defs ex_obj_defs is_hint_class_unsubscripted_def str_partition_def)
  have c': "''NDArray'' = dict_get HINT_PEP_TYPING_NAME_BAD_TO_GOOD ''NDArray'' ''NDArray''"
    by (simp add: dict_get_def HINT_PEP_TYPING_NAME_BAD_TO_GOOD_def)
  have cm: "''nptyping'' \<notin> HINT_PEP_MODULE_NAMES ex_host39"
    by (simp add: ex_host_defs)
  have r1: "get_hint_pep_sign ex_host39 ex_ContextManager_str = Inr ex_ContextManager"
    using sign_from_representation [OF a a'] am by blast
  have r2: "\<exists>pre post. get_hint_pep_sign ex_host39 ex_Frobnicate_int =
      Inl (BeartypeDecorHintPepSignException (pre @ py_repr ex_Frobnicate_int @ post))"
    using sign_from_representation [OF b b'] am(1,2) bm by blast
  have r3: "\<exists>pre post. get_hint_pep_sign ex_host39 ex_NDArray_int =
      Inl (BeartypeDecorHintPepSignException (pre @ py_repr ex_NDArray_int @ post))"
    using sign_from_representation [OF c c'] cm by blast
  from a(10,11) a' [symmetric] r1 r2 r3 show ?thesis by blast
qed

text \<open>
  C2 as stated does not hold under Python 3.6. The type alias \<^verbatim>\<open>typing.Pattern[str]\<close>
  is valid and matched by none of the branches the statement lists; its representation
  \<^verbatim>\<open>Pattern[str]\<close> has no module qualifier, so parsing it would end in the error for
  an unrecognized module. The getter returns \<^verbatim>\<open>typing.Pattern\<close> instead, through the
  branch \<^verbatim>\<open>IS_PYTHON_3_6 and isinstance(hint, typing._TypeAlias)\<close>.
\<close>

theorem sign_from_representation_counterexample:
  "die_unless_hint_pep ex_host36 ex_Pattern_str = None \<and>
   ex_Pattern_str \<noteq> PyNone \<and>
   \<not> is_hint_pep_generic ex_host36 ex_Pattern_str \<and>
   \<not> is_hint_pep585_builtin ex_host36 ex_Pattern_str \<and>
   \<not> isinstance_type ex_Pattern_str \<and>
   \<not> is_hint_forwardref ex_host36 ex_Pattern_str \<and>
   \<not> is_hint_pep484_newtype ex_host36 ex_Pattern_str \<and>
   \<not> is_hint_pep_typevar ex_host36 ex_Pattern_str \<and>
   str_partition (py_repr ex_Pattern_str) CHR ''.'' = (''Pattern[str]'', [], []) \<and>
   ''Pattern[str]'' \<notin> HINT_PEP_MODULE_NAMES ex_host36 \<and>
   get_hint_pep_sign ex_host36 ex_Pattern_str = Inr ex_Pattern"
  by (simp add: get_hint_pep_sign_def is_hint_class_unsubscripted_def str_partition_def
      module_attr_def ex_host_defs ex_obj_defs)

text \<open>
  C3. A valid hint that the PEP 585 builtin tester \<^verbatim>\<open>is_hint_pep585_builtin\<close>
  accepts and that is not a generic has, as its sign, the value of its
  \<^verbatim>\<open>__origin__\<close> attribute: the origin container type (\<^verbatim>\<open>list\<close> for
  \<^verbatim>\<open>list[int]\<close>).
\<close>

theorem builtin_sign_is_origin:
  assumes "die_unless_hint_pep h hint = None"
    and "hint \<noteq> PyNone"
    and "\<not> is_hint_pep_generic h hint"
    and "is_hint_pep585_builtin h hint"
    and "py_lookup hint ''__origin__'' = Some origin"
  shows "get_hint_pep_sign h hint = Inr origin"
  using assms by (simp add: get_hint_pep_sign_def py_attr_def)

theorem builtin_sign_is_origin_witness:
  "is_hint_pep585_builtin ex_host39 ex_list_int \<and>
   py_lookup ex_list_int ''__origin__'' = Some ex_list \<and>
   get_hint_pep_sign ex_host39 ex_list_int = Inr ex_list"
proof -
  have v: "die_unless_hint_pep ex_host39 ex_list_int = None"
    by (simp add: ex_host_defs ex_obj_defs)
  have n: "ex_list_int \<noteq> PyNone"
    by (simp add: ex_obj_defs)
  have g: "\<not> is_hint_pep_generic ex_host39 ex_list_int"
    by (simp add: ex_host_defs ex_obj_defs)
  have b: "is_hint_pep585_builtin ex_host39 ex_list_int"
    by (simp add: ex_host_defs)
  have l: "py_lookup ex_list_int ''__origin__'' = Some ex_list"
    by (simp add: ex_list_int_def)
  show ?thesis
    using b l builtin_sign_is_origin [OF v n g b l] by simp
qed

text \<open>
  C4. Let a valid hint be a class with no type arguments and no type parameters
  (\<^verbatim>\<open>get_hint_pep_args\<close> and \<^verbatim>\<open>get_hint_pep_typevars\<close> both return something false),
  matched by neither the generic nor the parameterized-builtin branch. Then
  \<^verbatim>\<open>get_hint_pep_sign\<close> returns that class itself if and only if the class is in
  \<^verbatim>\<open>HINT_PEP_SIGNS_TYPE\<close>; when it is not, the getter raises
  \<^verbatim>\<open>BeartypeDecorHintPepSignException\<close>.
\<close>

theorem bare_class_sign:
  assumes "die_unless_hint_pep h hint = None"
    and "\<not> is_hint_pep_generic h hint"
    and "\<not> is_hint_pep585_builtin h hint"
    and "isinstance_type hint"
    and "\<not> py_truthy (get_hint_pep_args h hint)"
    and "get_hint_pep_typevars h hint = Inr tvs"
    and "\<not> py_truthy tvs"
  shows "(get_hint_pep_sign h hint = Inr hint) = (hint \<in> set (HINT_PEP_SIGNS_TYPE h)) \<and>
         (hint \<notin> set (HINT_PEP_SIGNS_TYPE h) \<longrightarrow>
            (\<exists>msg. get_hint_pep_sign h hint = Inl (BeartypeDecorHintPepSignException msg)))"
proof -
  from assms(4) have "hint \<noteq> PyNone" by auto
  with assms show ?thesis
    by (simp add: get_hint_pep_sign_def is_hint_class_unsubscripted_def)
qed

text \<open>
  On the sample host: the class \<^verbatim>\<open>typing.TypeVar\<close> is registered and is its own sign;
  the class \<^verbatim>\<open>typing.NamedTuple\<close> is not registered and is refused.
\<close>

theorem bare_class_sign_witness:
  "TypeVar \<in> set (HINT_PEP_SIGNS_TYPE ex_host39) \<and>
   get_hint_pep_sign ex_host39 TypeVar = Inr TypeVar \<and>
   ex_NamedTuple \<notin> set (HINT_PEP_SIGNS_TYPE ex_host39) \<and>
   (\<exists>msg. get_hint_pep_sign ex_host39 ex_NamedTuple = Inl (BeartypeDecorHintPepSignException msg))"
proof -
  have a: "die_unless_hint_pep ex_host39 TypeVar = None"
    "\<not> is_hint_pep_generic ex_host39 TypeVar"
    "\<not> is_hint_pep585_builtin ex_host39 TypeVar"
    "isinstance_type TypeVar"
    "\<not> py_truthy (get_hint_pep_args ex_host39 TypeVar)"
    "get_hint_pep_typevars ex_host39 TypeVar = Inr (PyTuple [])"
    "\<not> py_truthy (PyTuple [])"
    by (simp_all add: ex_host_defs ex_obj_defs get_hint_pep_args_def get_hint_pep_typevars_def
        py_getattr_def)
  have b: "die_unless_hint_pep ex_host39 ex_NamedTuple = None"
    "\<not> is_hint_pep_generic ex_host39 ex_NamedTuple"
    "\<not> is_hint_pep585_builtin ex_host39 ex_NamedTuple"
    "isinstance_type ex_NamedTuple"
    "\<not> py_truthy (get_hint_pep_args ex_host39 ex_NamedTuple)"
    "get_hint_pep_typevars ex_host39 ex_NamedTuple = Inr (PyTuple [])"
    by (simp_all add: ex_host_defs ex_obj_defs get_hint_pep_args_def get_hint_pep_typevars_def
        py_getattr_def)
  have c: "TypeVar \<in> set (HINT_PEP_SIGNS_TYPE ex_host39)"
    "ex_NamedTuple \<notin> set (HINT_PEP_SIGNS_TYPE ex_host39)"
    by (simp_all add: ex_host_defs ex_obj_defs)
  show ?thesis
    using c bare_class_sign [OF a] bare_class_sign [OF b a(7)] by simp
qed

section \<open>Structural accessors\<close>

text \<open>
  C5. Let the per-category extractor chosen by \<^verbatim>\<open>is_hint_pep585_generic\<close> raise, when it
  raises at all, a \<^verbatim>\<open>BeartypeDecorHintPepException\<close> (as the getter's comments and
  docstring document). Then \<^verbatim>\<open>get_hint_pep_generic_bases_unerased\<close> either returns a
  tuple of at least one pseudo-superclass or raises \<^verbatim>\<open>BeartypeDecorHintPepException\<close>;
  when the extractor yields the empty tuple, the getter raises that exception instead of
  returning the empty tuple.
\<close>

theorem bases_unerased_nonempty:
  assumes "\<forall>e. (if is_hint_pep585_generic h hint
                  then get_hint_pep585_generic_bases_unerased h hint
                  else get_hint_pep484_generic_bases_unerased h hint) = Inl e \<longrightarrow>
               (\<exists>msg. e = BeartypeDecorHintPepException msg)"
  shows "((\<exists>bases. get_hint_pep_generic_bases_unerased h hint = Inr bases \<and> 1 \<le> length bases) \<or>
          (\<exists>msg. get_hint_pep_generic_bases_unerased h hint =
                   Inl (BeartypeDecorHintPepException msg))) \<and>
         ((if is_hint_pep585_generic h hint
           then get_hint_pep585_generic_bases_unerased h hint
           else get_hint_pep484_generic_bases_unerased h hint) = Inr [] \<longrightarrow>
          (\<exists>msg. get_hint_pep_generic_bases_unerased h hint =
                   Inl (BeartypeDecorHintPepException msg)))"
proof (cases "if is_hint_pep585_generic h hint
              then get_hint_pep585_generic_bases_unerased h hint
              else get_hint_pep484_generic_bases_unerased h hint")
  case (Inl e)
  with assms obtain msg where "e = BeartypeDecorHintPepException msg" by blast
  with Inl show ?thesis
    by (simp add: get_hint_pep_generic_bases_unerased_def)
next
  case (Inr bases)
  then show ?thesis
    by (cases bases) (simp_all add: get_hint_pep_generic_bases_unerased_def)
qed

text \<open>
  On the sample host: \<^verbatim>\<open>MuhGeneric[int]\<close> has the one pseudo-superclass
  \<^verbatim>\<open>Generic[T]\<close>; the class \<^verbatim>\<open>MuhList\<close>, built with an empty
  \<^verbatim>\<open>__orig_bases__\<close>, is refused.
\<close>

theorem bases_unerased_nonempty_witness:
  "get_hint_pep_generic_bases_unerased ex_host39 ex_MuhGeneric_int = Inr [ex_Generic_T] \<and>
   get_hint_pep585_generic_bases_unerased ex_host39 ex_MuhList = Inr [] \<and>
   (\<exists>msg. get_hint_pep_generic_bases_unerased ex_host39 ex_MuhList =
            Inl (BeartypeDecorHintPepException msg))"
proof -
  have a: "(if is_hint_pep585_generic ex_host39 ex_MuhList
            then get_hint_pep585_generic_bases_unerased ex_host39 ex_MuhList
            else get_hint_pep484_generic_bases_unerased ex_host39 ex_MuhList) = Inr []"
    and b: "get_hint_pep585_generic_bases_unerased ex_host39 ex_MuhList = Inr []"
    by (simp_all add: ex_host_defs ex_MuhList_def py_getattr_def)
  have c: "get_hint_pep_generic_bases_unerased ex_host39 ex_MuhGeneric_int = Inr [ex_Generic_T]"
    by (simp add: get_hint_pep_generic_bases_unerased_def ex_host_defs ex_obj_defs py_getattr_def)
  have d: "\<forall>e. (if is_hint_pep585_generic ex_host39 ex_MuhList
                 then get_hint_pep585_generic_bases_unerased ex_host39 ex_MuhList
                 else get_hint_pep484_generic_bases_unerased ex_host39 ex_MuhList) = Inl e \<longrightarrow>
              (\<exists>msg. e = BeartypeDecorHintPepException msg)"
    using a by simp
  show ?thesis
    using a b c bases_unerased_nonempty [OF d] by simp
qed

text \<open>
  C6, as the code has it. For every hint lacking \<^verbatim>\<open>__args__\<close>,
  \<^verbatim>\<open>get_hint_pep_args\<close> returns the empty tuple: under Python 3.7 or newer for every
  such hint, under Python 3.6 for every such hint that is not a
  \<^verbatim>\<open>typing._TypeAlias\<close> instance. Under Python 3.6, where \<^verbatim>\<open>__args__\<close> can be
  \<^verbatim>\<open>None\<close>, it returns the empty tuple as well for every hint, not a
  \<^verbatim>\<open>typing._TypeAlias\<close> instance, whose \<^verbatim>\<open>__args__\<close> is \<^verbatim>\<open>None\<close>.
\<close>

theorem args_empty_by_version:
  "(IS_PYTHON_AT_LEAST_3_7 h \<and> py_lookup hint ''__args__'' = None \<longrightarrow>
      get_hint_pep_args h hint = PyTuple []) \<and>
   (\<not> IS_PYTHON_AT_LEAST_3_7 h \<and> \<not> isinstance_TypeAlias hint \<and>
    (py_lookup hint ''__args__'' = None \<or> py_lookup hint ''__args__'' = Some PyNone) \<longrightarrow>
      get_hint_pep_args h hint = PyTuple [])"
  by (cases hint) (auto simp: get_hint_pep_args_def py_getattr_def py_or_def)

text \<open>
  On the sample hosts: \<^verbatim>\<open>typing.Any\<close> lacks \<^verbatim>\<open>__args__\<close> and has no type
  arguments under either version; the Python 3.6 class \<^verbatim>\<open>typing.Tuple\<close>, whose
  \<^verbatim>\<open>__args__\<close> is \<^verbatim>\<open>None\<close>, has none either.
\<close>

theorem args_empty_by_version_witness:
  "py_lookup ex_Any ''__args__'' = None \<and>
   get_hint_pep_args ex_host39 ex_Any = PyTuple [] \<and>
   get_hint_pep_args ex_host36 ex_Any = PyTuple [] \<and>
   py_lookup ex_Tuple_36 ''__args__'' = Some PyNone \<and>
   get_hint_pep_args ex_host36 ex_Tuple_36 = PyTuple []"
proof -
  have a: "py_lookup ex_Any ''__args__'' = None"
    "py_lookup ex_Tuple_36 ''__args__'' = Some PyNone"
    "\<not> isinstance_TypeAlias ex_Any" "\<not> isinstance_TypeAlias ex_Tuple_36"
    by (simp_all add: ex_obj_defs)
  have b: "IS_PYTHON_AT_LEAST_3_7 ex_host39" "\<not> IS_PYTHON_AT_LEAST_3_7 ex_host36"
    by (simp_all add: ex_host_defs)
  show ?thesis
    using a b args_empty_by_version [of ex_host39 ex_Any]
      args_empty_by_version [of ex_host36 ex_Any]
      args_empty_by_version [of ex_host36 ex_Tuple_36]
    by simp
qed

text \<open>
  C6 as stated fails under Python 3.6: the type alias \<^verbatim>\<open>typing.Pattern[str]\<close> lacks
  \<^verbatim>\<open>__args__\<close>, and the getter answers from its \<^verbatim>\<open>type_var\<close> slot with
  \<^verbatim>\<open>(str,)\<close>, not with the empty tuple.
\<close>

theorem args_empty_counterexample:
  "\<not> IS_PYTHON_AT_LEAST_3_7 ex_host36 \<and>
   py_lookup ex_Pattern_str ''__args__'' = None \<and>
   get_hint_pep_args ex_host36 ex_Pattern_str = PyTuple [ex_str] \<and>
   PyTuple [ex_str] \<noteq> PyTuple []"
  by (simp add: get_hint_pep_args_def ex_host_defs ex_obj_defs py_getattr_def)

section \<open>Reducers\<close>

text \<open>
  C7. Called with a string as \<^verbatim>\<open>exception_prefix\<close>,
  \<^verbatim>\<open>reduce_hint_pep484_deprecated\<close> returns the hint it was passed and does not
  raise. Let the bare prefix be the text before the first \<^verbatim>\<open>[\<close> of the hint's
  representation, as \<^verbatim>\<open>get_hint_repr\<close> gives it (the whole representation when it
  holds no \<^verbatim>\<open>[\<close>). When the bare prefix is
  in \<^verbatim>\<open>HINTS_PEP484_REPR_PREFIX_DEPRECATED\<close>, the call emits exactly one
  \<^verbatim>\<open>BeartypeDecorHintPep585DeprecationWarning\<close>; otherwise it emits nothing.
\<close>

theorem reduce_deprecated_identity:
  "fst (reduce_hint_pep484_deprecated h hint (PyStr prefix) emitted) = Inr hint \<and>
   (fst (str_partition (get_hint_repr h hint) CHR ''['') \<in> HINTS_PEP484_REPR_PREFIX_DEPRECATED h \<longrightarrow>
      (\<exists>msg. snd (reduce_hint_pep484_deprecated h hint (PyStr prefix) emitted) =
               emitted @ [BeartypeDecorHintPep585DeprecationWarning msg])) \<and>
   (fst (str_partition (get_hint_repr h hint) CHR ''['') \<notin> HINTS_PEP484_REPR_PREFIX_DEPRECATED h \<longrightarrow>
      snd (reduce_hint_pep484_deprecated h hint (PyStr prefix) emitted) = emitted)"
  by (simp add: reduce_hint_pep484_deprecated_def issue_warning_def split_beta Let_def)

text \<open>
  On the sample host: \<^verbatim>\<open>typing.List[int]\<close> is deprecated and draws one warning;
  \<^verbatim>\<open>typing.Any\<close> draws none.
\<close>

theorem reduce_deprecated_identity_witness:
  "fst (str_partition (get_hint_repr ex_host39 ex_List_int) CHR ''['') = ''typing.List'' \<and>
   fst (reduce_hint_pep484_deprecated ex_host39 ex_List_int (PyStr []) []) = Inr ex_List_int \<and>
   (\<exists>msg. snd (reduce_hint_pep484_deprecated ex_host39 ex_List_int (PyStr []) []) =
            [BeartypeDecorHintPep585DeprecationWarning msg]) \<and>
   fst (str_partition (get_hint_repr ex_host39 ex_Any) CHR ''['') = ''typing.Any'' \<and>
   fst (reduce_hint_pep484_deprecated ex_host39 ex_Any (PyStr []) []) = Inr ex_Any \<and>
   snd (reduce_hint_pep484_deprecated ex_host39 ex_Any (PyStr []) []) = []"
proof -
  have a: "fst (str_partition (get_hint_repr ex_host39 ex_List_int) CHR ''['') = ''typing.List''"
    "fst (str_partition (get_hint_repr ex_host39 ex_Any) CHR ''['') = ''typing.Any''"
    by (simp_all add: ex_host_defs ex_obj_defs str_partition_def)
  have b: "''typing.List'' \<in> HINTS_PEP484_REPR_PREFIX_DEPRECATED ex_host39"
    "''typing.Any'' \<notin> HINTS_PEP484_REPR_PREFIX_DEPRECATED ex_host39"
    by (simp_all add: ex_host_defs)
  show ?thesis
    using a b reduce_deprecated_identity [of ex_host39 ex_List_int "[]" "[]"]
      reduce_deprecated_identity [of ex_host39 ex_Any "[]" "[]"]
    by simp
qed

section \<open>Standard library origin type\<close>

text \<open>
  C8. Let the hint have a sign. When the sign is in
  \<^verbatim>\<open>HINT_PEP_SIGNS_TYPE_ORIGIN_STDLIB\<close>, \<^verbatim>\<open>get_hint_pep_stdlib_type_or_none\<close>
  returns what the origin getter returns; otherwise it returns \<^verbatim>\<open>None\<close>. The strict
  getter \<^verbatim>\<open>get_hint_pep_stdlib_type\<close> returns the same value whenever that value is not
  \<^verbatim>\<open>None\<close>, and raises \<^verbatim>\<open>BeartypeDecorHintPepException\<close> exactly when the
  non-strict getter returns \<^verbatim>\<open>None\<close>.
\<close>

theorem stdlib_type_by_sign:
  assumes "get_hint_pep_sign h hint = Inr hint_sign"
  shows "(hint_sign \<in> HINT_PEP_SIGNS_TYPE_ORIGIN_STDLIB h \<longrightarrow>
            get_hint_pep_stdlib_type_or_none h hint =
              Inr (get_hint_pep_origin_object_or_none h hint)) \<and>
         (hint_sign \<notin> HINT_PEP_SIGNS_TYPE_ORIGIN_STDLIB h \<longrightarrow>
            get_hint_pep_stdlib_type_or_none h hint = Inr PyNone) \<and>
         (\<forall>t. get_hint_pep_stdlib_type_or_none h hint = Inr t \<and> t \<noteq> PyNone \<longrightarrow>
            get_hint_pep_stdlib_type h hint = Inr t) \<and>
         ((\<exists>msg. get_hint_pep_stdlib_type h hint = Inl (BeartypeDecorHintPepException msg)) =
          (get_hint_pep_stdlib_type_or_none h hint = Inr PyNone))"
  using assms
  by (auto simp: get_hint_pep_stdlib_type_or_none_def get_hint_pep_stdlib_type_def)

text \<open>
  On the sample host: the origin type of \<^verbatim>\<open>list[int]\<close> is \<^verbatim>\<open>list\<close>;
  \<^verbatim>\<open>typing.Any\<close> has none, and the strict getter raises.
\<close>

theorem stdlib_type_by_sign_witness:
  "get_hint_pep_sign ex_host39 ex_list_int = Inr ex_list \<and>
   ex_list \<in> HINT_PEP_SIGNS_TYPE_ORIGIN_STDLIB ex_host39 \<and>
   get_hint_pep_stdlib_type_or_none ex_host39 ex_list_int = Inr ex_list \<and>
   get_hint_pep_stdlib_type ex_host39 ex_list_int = Inr ex_list \<and>
   get_hint_pep_sign ex_host39 ex_Any = Inr ex_Any \<and>
   ex_Any \<notin> HINT_PEP_SIGNS_TYPE_ORIGIN_STDLIB ex_host39 \<and>
   get_hint_pep_stdlib_type_or_none ex_host39 ex_Any = Inr PyNone \<and>
   (\<exists>msg. get_hint_pep_stdlib_type ex_host39 ex_Any = Inl (BeartypeDecorHintPepException msg))"
proof -
  have s1: "get_hint_pep_sign ex_host39 ex_list_int = Inr ex_list"
    by (simp add: get_hint_pep_sign_def py_attr_def ex_host_defs ex_obj_defs)
  have s2: "get_hint_pep_sign ex_host39 ex_Any = Inr ex_Any"
    by (simp add: get_hint_pep_sign_def is_hint_class_unsubscripted_def str_partition_def
        dict_get_def HINT_PEP_TYPING_NAME_BAD_TO_GOOD_def module_getattr_or_none_def
        ex_host_defs ex_obj_defs)
  have m: "ex_list \<in> HINT_PEP_SIGNS_TYPE_ORIGIN_STDLIB ex_host39"
    "ex_Any \<notin> HINT_PEP_SIGNS_TYPE_ORIGIN_STDLIB ex_host39"
    by (simp_all add: ex_host_defs ex_obj_defs)
  have o: "get_hint_pep_origin_object_or_none ex_host39 ex_list_int = ex_list"
    by (simp add: get_hint_pep_origin_object_or_none_def py_getattr_def ex_host_defs
        ex_list_int_def)
  have n: "ex_list \<noteq> PyNone"
    by (simp add: ex_list_def)
  show ?thesis
    using s1 s2 m o n stdlib_type_by_sign [OF s1] stdlib_type_by_sign [OF s2]
    by simp
qed

section \<open>The None reducer\<close>

text \<open>
  C9. \<^verbatim>\<open>reduce_hint_pep484_none\<close> returns \<^verbatim>\<open>NoneType\<close> for the \<^verbatim>\<open>None\<close>
  singleton; for any other value its assertion fails and it raises
  \<^verbatim>\<open>AssertionError\<close>.
\<close>

theorem reduce_none:
  "reduce_hint_pep484_none PyNone = Inr NoneType \<and>
   (hint \<noteq> PyNone \<longrightarrow> (\<exists>msg. reduce_hint_pep484_none hint = Inl (AssertionError msg)))"
  by (simp add: reduce_hint_pep484_none_def)

theorem reduce_none_witness:
  "ex_int \<noteq> PyNone \<and> (\<exists>msg. reduce_hint_pep484_none ex_int = Inl (AssertionError msg))"
proof -
  have "ex_int \<noteq> PyNone" by (simp add: ex_int_def)
  then show ?thesis using reduce_none [of ex_int] by simp
qed

section \<open>The generic type getter\<close>

text \<open>
  C10. \<^verbatim>\<open>get_hint_pep_generic_type_or_none\<close> has no raising path and returns a class
  or \<^verbatim>\<open>None\<close>: the origin object of the hint whenever that object is a class (also
  when the hint is a class itself), else the hint when the hint is a class, else
  \<^verbatim>\<open>None\<close>. The generic tester takes no part in it, so hints that are not generics
  get a class back as well.
\<close>

theorem generic_type_or_none_cases:
  "(isinstance_type (get_hint_pep_generic_type_or_none h hint) \<or>
    get_hint_pep_generic_type_or_none h hint = PyNone) \<and>
   (isinstance_type (get_hint_pep_origin_object_or_none h hint) \<longrightarrow>
      get_hint_pep_generic_type_or_none h hint = get_hint_pep_origin_object_or_none h hint) \<and>
   (\<not> isinstance_type (get_hint_pep_origin_object_or_none h hint) \<and> isinstance_type hint \<longrightarrow>
      get_hint_pep_generic_type_or_none h hint = hint) \<and>
   (\<not> isinstance_type (get_hint_pep_origin_object_or_none h hint) \<and> \<not> isinstance_type hint \<longrightarrow>
      get_hint_pep_generic_type_or_none h hint = PyNone)"
  by (simp add: get_hint_pep_generic_type_or_none_def Let_def)

text \<open>
  On the sample hosts: \<^verbatim>\<open>list[int]\<close> is no generic and yields \<^verbatim>\<open>list\<close>; the
  Python 3.6 class \<^verbatim>\<open>typing.List[int]\<close> yields its origin \<^verbatim>\<open>list\<close>, not itself; the
  class \<^verbatim>\<open>MuhGeneric\<close> has no origin and yields itself; \<^verbatim>\<open>typing.Any\<close> yields
  \<^verbatim>\<open>None\<close>.
\<close>

theorem generic_type_or_none_cases_witness:
  "\<not> is_hint_pep_generic ex_host39 ex_list_int \<and>
   get_hint_pep_generic_type_or_none ex_host39 ex_list_int = ex_list \<and>
   isinstance_type ex_List_int_36 \<and>
   get_hint_pep_generic_type_or_none ex_host36 ex_List_int_36 = ex_list \<and>
   get_hint_pep_generic_type_or_none ex_host39 ex_MuhGeneric = ex_MuhGeneric \<and>
   get_hint_pep_generic_type_or_none ex_host39 ex_Any = PyNone"
proof -
  have o: "get_hint_pep_origin_object_or_none ex_host39 ex_list_int = ex_list"
    "get_hint_pep_origin_object_or_none ex_host36 ex_List_int_36 = ex_list"
    "get_hint_pep_origin_object_or_none ex_host39 ex_MuhGeneric = PyNone"
    "get_hint_pep_origin_object_or_none ex_host39 ex_Any = PyNone"
    by (simp_all add: get_hint_pep_origin_object_or_none_def ex_host_defs py_getattr_def
        ex_list_int_def ex_List_int_36_def ex_MuhGeneric_def ex_Any_def SENTINEL_def ex_list_def)
  have c: "isinstance_type ex_list" "isinstance_type ex_List_int_36"
    "isinstance_type ex_MuhGeneric" "\<not> isinstance_type ex_Any" "\<not> isinstance_type PyNone"
    by (simp_all add: ex_list_def ex_List_int_36_def ex_MuhGeneric_def ex_Any_def)
  have g: "\<not> is_hint_pep_generic ex_host39 ex_list_int"
    by (simp add: ex_host_defs ex_obj_defs)
  show ?thesis
    using o c g generic_type_or_none_cases [of ex_host39 ex_list_int]
      generic_type_or_none_cases [of ex_host36 ex_List_int_36]
      generic_type_or_none_cases [of ex_host39 ex_MuhGeneric]
      generic_type_or_none_cases [of ex_host39 ex_Any]
    by simp
qed

end
